theory Spec2Isabelle
  imports Complex_Main "HOL-Library.Sublist"
begin

section \<open>Python values used by the sources\<close>

text \<open>
  A Python \<open>str\<close> is a sequence of Unicode code points, and \<open>len\<close> counts code
  points; a string is therefore a list of code points. \<open>py\<close> turns an ASCII literal into
  such a list, so that the literals of the sources stay readable.
\<close>

type_synonym pystr = "nat list"

definition py :: "string \<Rightarrow> pystr" where
  "py s = map of_char s"

datatype py_error = ValueError | TypeError | AttributeError

text \<open>
  \<open>str.isspace\<close> for one character (the characters \<open>str.strip()\<close> removes):
  the code points CPython classifies as whitespace.
\<close>

definition py_isspace :: "nat \<Rightarrow> bool" where
  "py_isspace c \<longleftrightarrow>
     (9 \<le> c \<and> c \<le> 13) \<or> (28 \<le> c \<and> c \<le> 32) \<or> c = 133 \<or> c = 160 \<or> c = 5760 \<or>
     (8192 \<le> c \<and> c \<le> 8202) \<or> c = 8232 \<or> c = 8233 \<or> c = 8239 \<or> c = 8287 \<or> c = 12288"

text \<open>\<open>s.strip()\<close>: leading and trailing whitespace removed.\<close>

definition py_strip :: "pystr \<Rightarrow> pystr" where
  "py_strip s = rev (dropWhile py_isspace (rev (dropWhile py_isspace s)))"

text \<open>\<open>s.rstrip(c)\<close> for a one-character argument.\<close>

definition py_rstrip :: "nat \<Rightarrow> pystr \<Rightarrow> pystr" where
  "py_rstrip c s = rev (dropWhile (\<lambda>x. x = c) (rev s))"

text \<open>\<open>s.split(c)\<close> for a one-character separator: never the empty list.\<close>

fun py_split :: "nat \<Rightarrow> pystr \<Rightarrow> pystr list" where
  "py_split c [] = [[]]"
| "py_split c (x # xs) =
     (if x = c then [] # py_split c xs
      else (case py_split c xs of [] \<Rightarrow> [[x]] | y # ys \<Rightarrow> (x # y) # ys))"

text \<open>
  \<open>s.replace(old, '')\<close> for a non-empty \<open>old\<close>: the occurrences of \<open>old\<close> are
  removed from left to right, without overlap, in one pass.
\<close>

function py_remove :: "pystr \<Rightarrow> pystr \<Rightarrow> pystr" where
  "py_remove old [] = []"
| "py_remove old (x # xs) =
     (if old \<noteq> [] \<and> prefix old (x # xs) then py_remove old (drop (length old) (x # xs))
      else x # py_remove old xs)"
  by pat_completeness auto
termination
  by (relation "measure (\<lambda>(old, s). length s)") auto

text \<open>
  \<open>str.isdigit\<close>: every character has the Unicode property Numeric\_Type=Digit or
  Numeric\_Type=Decimal, and there is at least one character. The table lists the code
  points of the Unicode Character Database 14.0 (CPython 3.11) with that property, as
  inclusive ranges. Besides \<open>0\<close> to \<open>9\<close> it holds, among others, the superscript digits
  (178, 179, 185) and the full-width digits (65296 to 65305).
\<close>

definition digit_ranges :: "(nat \<times> nat) list" where
  "digit_ranges = [
    (48, 57), (178, 179), (185, 185), (1632, 1641), (1776, 1785), (1984, 1993),
    (2406, 2415), (2534, 2543), (2662, 2671), (2790, 2799), (2918, 2927), (3046, 3055),
    (3174, 3183), (3302, 3311), (3430, 3439), (3558, 3567), (3664, 3673), (3792, 3801),
    (3872, 3881), (4160, 4169), (4240, 4249), (4969, 4977), (6112, 6121), (6160, 6169),
    (6470, 6479), (6608, 6618), (6784, 6793), (6800, 6809), (6992, 7001), (7088, 7097),
    (7232, 7241), (7248, 7257), (8304, 8304), (8308, 8313), (8320, 8329), (9312, 9320),
    (9332, 9340), (9352, 9360), (9450, 9450), (9461, 9469), (9471, 9471), (10102, 10110),
    (10112, 10120), (10122, 10130), (42528, 42537), (43216, 43225), (43264, 43273),
    (43472, 43481), (43504, 43513), (43600, 43609), (44016, 44025), (65296, 65305),
    (66720, 66729), (68160, 68163), (68912, 68921), (69216, 69224), (69714, 69722),
    (69734, 69743), (69872, 69881), (69942, 69951), (70096, 70105), (70384, 70393),
    (70736, 70745), (70864, 70873), (71248, 71257), (71360, 71369), (71472, 71481),
    (71904, 71913), (72016, 72025), (72784, 72793), (73040, 73049), (73120, 73129),
    (92768, 92777), (92864, 92873), (93008, 93017), (120782, 120831), (123200, 123209),
    (123632, 123641), (125264, 125273), (127232, 127242), (130032, 130041)]"

definition py_isdigit_char :: "nat \<Rightarrow> bool" where
  "py_isdigit_char c = list_ex (\<lambda>(lo, hi). lo \<le> c \<and> c \<le> hi) digit_ranges"

definition py_isdigit :: "pystr \<Rightarrow> bool" where
  "py_isdigit s \<longleftrightarrow> s \<noteq> [] \<and> list_all py_isdigit_char s"

text \<open>The ten decimal digits \<open>0\<close> to \<open>9\<close>.\<close>

definition decimal_digit :: "nat \<Rightarrow> bool" where
  "decimal_digit c \<longleftrightarrow> 48 \<le> c \<and> c \<le> 57"

text \<open>
  \<open>s.lower() == 'true'\<close>. The only code points whose lower case is one of \<open>t\<close>,
  \<open>r\<close>, \<open>u\<close>, \<open>e\<close> are these letters and their ASCII capitals, and no code point
  lowers to several of them, so the test compares four characters.
\<close>

definition lower_is_true :: "pystr \<Rightarrow> bool" where
  "lower_is_true s \<longleftrightarrow>
     (case s of [a, b, c, d] \<Rightarrow>
        (a = 116 \<or> a = 84) \<and> (b = 114 \<or> b = 82) \<and> (c = 117 \<or> c = 85) \<and> (d = 101 \<or> d = 69)
      | _ \<Rightarrow> False)"

section \<open>config.py\<close>

text \<open>
  The process environment \<open>os.environ\<close> and the parsed content of the \<open>.env\<close> file
  beside \<open>config.py\<close> (\<open>None\<close>: the file does not exist). A key of the file that has
  no value is left out of the map: \<open>load_dotenv\<close> skips it and \<open>refresh_stock_list\<close>
  reads it as the empty string, as it does a missing key.
\<close>

type_synonym environ = "pystr \<rightharpoonup> pystr"

text \<open>\<open>os.getenv(key, default)\<close>.\<close>

definition getenv :: "environ \<Rightarrow> pystr \<Rightarrow> pystr \<Rightarrow> pystr" where
  "getenv env key dflt = (case env key of None \<Rightarrow> dflt | Some v \<Rightarrow> v)"

text \<open>
  \<open>load_dotenv(dotenv_path=env_path)\<close> without \<open>override\<close>: the values of the file
  are copied into \<open>os.environ\<close>, the variables that are already set keep their value.
\<close>

definition load_dotenv :: "environ option \<Rightarrow> environ \<Rightarrow> environ" where
  "load_dotenv file env = (case file of None \<Rightarrow> env | Some vals \<Rightarrow> vals ++ env)"

text \<open>
  The comprehension \<open>[x.strip() for x in s.split(',') if x.strip()]\<close> that
  \<open>config.py\<close> applies to every comma-separated variable.
\<close>

definition comma_list :: "pystr \<Rightarrow> pystr list" where
  "comma_list s = map py_strip (filter (\<lambda>x. py_strip x \<noteq> []) (py_split 44 s))"

record config =
  stock_list :: "pystr list"
  feishu_app_id :: "pystr option"
  feishu_app_secret :: "pystr option"
  feishu_folder_token :: "pystr option"
  tushare_token :: "pystr option"
  ai_provider :: pystr
  gemini_api_key :: "pystr option"
  gemini_model :: pystr
  gemini_model_fallback :: pystr
  gemini_request_delay :: real
  gemini_max_retries :: int
  gemini_retry_delay :: real
  gemini_request_timeout :: int
  openai_preferred :: bool
  openai_api_key :: "pystr option"
  openai_base_url :: "pystr option"
  openai_model :: pystr
  openrouter_api_key :: "pystr option"
  openrouter_base_url :: pystr
  openrouter_model :: pystr
  deepseek_api_key :: "pystr option"
  deepseek_base_url :: pystr
  deepseek_model :: pystr
  dashscope_api_key :: "pystr option"
  dashscope_base_url :: pystr
  dashscope_model :: pystr
  google_search_api_key :: "pystr option"
  google_search_engine_id :: "pystr option"
  tavily_api_keys :: "pystr list"
  serpapi_keys :: "pystr list"
  wechat_webhook_url :: "pystr option"
  feishu_webhook_url :: "pystr option"
  telegram_bot_token :: "pystr option"
  telegram_chat_id :: "pystr option"
  email_sender :: "pystr option"
  email_password :: "pystr option"
  email_receivers :: "pystr list"
  custom_webhook_urls :: "pystr list"
  feishu_max_bytes :: int
  wechat_max_bytes :: int
  database_path :: pystr
  log_dir :: pystr
  log_level :: pystr
  max_workers :: int
  debug :: bool
  schedule_enabled :: bool
  schedule_time :: pystr
  market_review_enabled :: bool
  akshare_sleep_min :: real
  akshare_sleep_max :: real
  tushare_rate_limit_per_minute :: int
  max_retries :: int
  retry_base_delay :: real
  retry_max_delay :: real

text \<open>
  The state the class methods of \<open>Config\<close> work on: the process environment, the
  \<open>.env\<close> file and the class attribute \<open>Config._instance\<close>. (The dataclass field of
  the same name that every instance carries is never written and stays \<open>None\<close>; it is
  left out of the record.)
\<close>

record world =
  os_environ :: environ
  dotenv_file :: "environ option"
  config_instance :: "config option"

text \<open>
  \<open>Config._load_from_env\<close>. The builtins \<open>int\<close> and \<open>float\<close> applied to a string
  are the parameters \<open>pint\<close> and \<open>pfloat\<close> (\<open>None\<close>: the builtin raises ValueError).
  \<open>load_dotenv\<close> writes to \<open>os.environ\<close>, so the environment is returned as well,
  also when a conversion raises afterwards.
\<close>

definition load_from_env ::
  "(pystr \<Rightarrow> int option) \<Rightarrow> (pystr \<Rightarrow> real option) \<Rightarrow> world \<Rightarrow> (py_error + config) \<times> world" where
  "load_from_env pint pfloat w =
    (let env = load_dotenv (dotenv_file w) (os_environ w);
         w' = w\<lparr>os_environ := env\<rparr>;
         stock_list_str = getenv env (py ''STOCK_LIST'') [];
         parsed = comma_list stock_list_str;
         stock_list_v = (if parsed = [] then [py ''600519'', py ''000001'', py ''300750''] else parsed);
         tavily_keys_str = getenv env (py ''TAVILY_API_KEYS'') [];
         tavily_api_keys_v = comma_list tavily_keys_str;
         serpapi_keys_str = getenv env (py ''SERPAPI_API_KEYS'') [];
         serpapi_keys_v = comma_list serpapi_keys_str
     in case pfloat (getenv env (py ''GEMINI_REQUEST_DELAY'') (py ''2.0'')) of
          None \<Rightarrow> (Inl ValueError, w')
        | Some gemini_request_delay_v \<Rightarrow>
      (case pint (getenv env (py ''GEMINI_MAX_RETRIES'') (py ''5'')) of
          None \<Rightarrow> (Inl ValueError, w')
        | Some gemini_max_retries_v \<Rightarrow>
      (case pfloat (getenv env (py ''GEMINI_RETRY_DELAY'') (py ''5.0'')) of
          None \<Rightarrow> (Inl ValueError, w')
        | Some gemini_retry_delay_v \<Rightarrow>
      (case pint (getenv env (py ''GEMINI_REQUEST_TIMEOUT'') (py ''60'')) of
          None \<Rightarrow> (Inl ValueError, w')
        | Some gemini_request_timeout_v \<Rightarrow>
      (case pint (getenv env (py ''FEISHU_MAX_BYTES'') (py ''20000'')) of
          None \<Rightarrow> (Inl ValueError, w')
        | Some feishu_max_bytes_v \<Rightarrow>
      (case pint (getenv env (py ''WECHAT_MAX_BYTES'') (py ''4000'')) of
          None \<Rightarrow> (Inl ValueError, w')
        | Some wechat_max_bytes_v \<Rightarrow>
      (case pint (getenv env (py ''MAX_WORKERS'') (py ''3'')) of
          None \<Rightarrow> (Inl ValueError, w')
        | Some max_workers_v \<Rightarrow>
      (Inr \<lparr>
         stock_list = stock_list_v,
         feishu_app_id = env (py ''FEISHU_APP_ID''),
         feishu_app_secret = env (py ''FEISHU_APP_SECRET''),
         feishu_folder_token = env (py ''FEISHU_FOLDER_TOKEN''),
         tushare_token = env (py ''TUSHARE_TOKEN''),
         ai_provider = getenv env (py ''AI_PROVIDER'') (py ''auto''),
         gemini_api_key = env (py ''GEMINI_API_KEY''),
         gemini_model = getenv env (py ''GEMINI_MODEL'') (py ''gemini-3-flash-preview''),
         gemini_model_fallback = getenv env (py ''GEMINI_MODEL_FALLBACK'') (py ''gemini-2.5-flash''),
         gemini_request_delay = gemini_request_delay_v,
         gemini_max_retries = gemini_max_retries_v,
         gemini_retry_delay = gemini_retry_delay_v,
         gemini_request_timeout = gemini_request_timeout_v,
         openai_preferred = lower_is_true (getenv env (py ''OPENAI_PREFERRED'') (py ''false'')),
         openai_api_key = env (py ''OPENAI_API_KEY''),
         openai_base_url = env (py ''OPENAI_BASE_URL''),
         openai_model = getenv env (py ''OPENAI_MODEL'') (py ''gpt-4o-mini''),
         openrouter_api_key = env (py ''OPENROUTER_API_KEY''),
         openrouter_base_url = getenv env (py ''OPENROUTER_BASE_URL'') (py ''https://openrouter.ai/api/v1''),
         openrouter_model = getenv env (py ''OPENROUTER_MODEL'') (py ''anthropic/claude-3.5-sonnet''),
         deepseek_api_key = env (py ''DEEPSEEK_API_KEY''),
         deepseek_base_url = getenv env (py ''DEEPSEEK_BASE_URL'') (py ''https://api.deepseek.com/v1''),
         deepseek_model = getenv env (py ''DEEPSEEK_MODEL'') (py ''deepseek-chat''),
         dashscope_api_key = env (py ''DASHSCOPE_API_KEY''),
         dashscope_base_url = getenv env (py ''DASHSCOPE_BASE_URL'')
           (py ''https://dashscope.aliyuncs.com/compatible-mode/v1''),
         dashscope_model = getenv env (py ''DASHSCOPE_MODEL'') (py ''qwen-plus''),
         google_search_api_key = env (py ''GOOGLE_SEARCH_API_KEY''),
         google_search_engine_id = env (py ''GOOGLE_SEARCH_ENGINE_ID''),
         tavily_api_keys = tavily_api_keys_v,
         serpapi_keys = serpapi_keys_v,
         wechat_webhook_url = env (py ''WECHAT_WEBHOOK_URL''),
         feishu_webhook_url = env (py ''FEISHU_WEBHOOK_URL''),
         telegram_bot_token = env (py ''TELEGRAM_BOT_TOKEN''),
         telegram_chat_id = env (py ''TELEGRAM_CHAT_ID''),
         email_sender = env (py ''EMAIL_SENDER''),
         email_password = env (py ''EMAIL_PASSWORD''),
         email_receivers = comma_list (getenv env (py ''EMAIL_RECEIVERS'') []),
         custom_webhook_urls = comma_list (getenv env (py ''CUSTOM_WEBHOOK_URLS'') []),
         feishu_max_bytes = feishu_max_bytes_v,
         wechat_max_bytes = wechat_max_bytes_v,
         database_path = getenv env (py ''DATABASE_PATH'') (py ''./data/stock_analysis.db''),
         log_dir = getenv env (py ''LOG_DIR'') (py ''./logs''),
         log_level = getenv env (py ''LOG_LEVEL'') (py ''INFO''),
         max_workers = max_workers_v,
         debug = lower_is_true (getenv env (py ''DEBUG'') (py ''false'')),
         schedule_enabled = lower_is_true (getenv env (py ''SCHEDULE_ENABLED'') (py ''false'')),
         schedule_time = getenv env (py ''SCHEDULE_TIME'') (py ''18:00''),
         market_review_enabled = lower_is_true (getenv env (py ''MARKET_REVIEW_ENABLED'') (py ''true'')),
         akshare_sleep_min = 2,
         akshare_sleep_max = 5,
         tushare_rate_limit_per_minute = 80,
         max_retries = 3,
         retry_base_delay = 1,
         retry_max_delay = 30
       \<rparr>, w'))))))))"

text \<open>\<open>Config.get_instance\<close>, \<open>Config.reset_instance\<close>.\<close>

definition get_instance ::
  "(pystr \<Rightarrow> int option) \<Rightarrow> (pystr \<Rightarrow> real option) \<Rightarrow> world \<Rightarrow> (py_error + config) \<times> world" where
  "get_instance pint pfloat w =
    (case config_instance w of
       None \<Rightarrow>
         (case load_from_env pint pfloat w of
            (Inl e, w') \<Rightarrow> (Inl e, w')
          | (Inr c, w') \<Rightarrow> (Inr c, w'\<lparr>config_instance := Some c\<rparr>))
     | Some c \<Rightarrow> (Inr c, w))"

definition reset_instance :: "world \<Rightarrow> world" where
  "reset_instance w = w\<lparr>config_instance := None\<rparr>"

text \<open>
  \<open>Config.refresh_stock_list\<close>: the value of the \<open>.env\<close> file first (stripped), the
  process environment when the file has none; \<open>self.stock_list\<close> is overwritten.
\<close>

definition refresh_stock_list :: "world \<Rightarrow> config \<Rightarrow> config" where
  "refresh_stock_list w self =
    (let from_file = (case dotenv_file w of
                        None \<Rightarrow> []
                      | Some vals \<Rightarrow> py_strip (case vals (py ''STOCK_LIST'') of None \<Rightarrow> [] | Some v \<Rightarrow> v));
         stock_list_str = (if from_file = [] then getenv (os_environ w) (py ''STOCK_LIST'') [] else from_file);
         parsed = comma_list stock_list_str;
         stock_list_v = (if parsed = [] then [py ''000001''] else parsed)
     in self\<lparr>stock_list := stock_list_v\<rparr>)"

text \<open>\<open>Config()\<close>: every field at the default the dataclass declares.\<close>

definition default_config :: config where
  "default_config = \<lparr>
     stock_list = [],
     feishu_app_id = None,
     feishu_app_secret = None,
     feishu_folder_token = None,
     tushare_token = None,
     ai_provider = py ''auto'',
     gemini_api_key = None,
     gemini_model = py ''gemini-3-flash-preview'',
     gemini_model_fallback = py ''gemini-2.5-flash'',
     gemini_request_delay = 2,
     gemini_max_retries = 5,
     gemini_retry_delay = 5,
     gemini_request_timeout = 60,
     openai_preferred = False,
     openai_api_key = None,
     openai_base_url = None,
     openai_model = py ''gpt-4o-mini'',
     openrouter_api_key = None,
     openrouter_base_url = py ''https://openrouter.ai/api/v1'',
     openrouter_model = py ''anthropic/claude-3.5-sonnet'',
     deepseek_api_key = None,
     deepseek_base_url = py ''https://api.deepseek.com/v1'',
     deepseek_model = py ''deepseek-chat'',
     dashscope_api_key = None,
     dashscope_base_url = py ''https://dashscope.aliyuncs.com/compatible-mode/v1'',
     dashscope_model = py ''qwen-plus'',
     google_search_api_key = None,
     google_search_engine_id = None,
     tavily_api_keys = [],
     serpapi_keys = [],
     wechat_webhook_url = None,
     feishu_webhook_url = None,
     telegram_bot_token = None,
     telegram_chat_id = None,
     email_sender = None,
     email_password = None,
     email_receivers = [],
     custom_webhook_urls = [],
     feishu_max_bytes = 20000,
     wechat_max_bytes = 4000,
     database_path = py ''./data/stock_analysis.db'',
     log_dir = py ''./logs'',
     log_level = py ''INFO'',
     max_workers = 3,
     debug = False,
     schedule_enabled = False,
     schedule_time = py ''18:00'',
     market_review_enabled = True,
     akshare_sleep_min = 2,
     akshare_sleep_max = 5,
     tushare_rate_limit_per_minute = 80,
     max_retries = 3,
     retry_base_delay = 1,
     retry_max_delay = 30
   \<rparr>"

text \<open>
  The operations a process can perform on the configuration, and what can happen to the
  environment between them: the three methods of \<open>Config\<close>, a change of
  \<open>os.environ\<close> and a change of the \<open>.env\<close> file. \<open>refresh_stock_list\<close> is a
  method of an instance; the operation calls it on the singleton, when there is one.
\<close>

datatype config_op =
    GetInstance
  | RefreshStockList
  | ResetInstance
  | SetEnviron environ
  | SetDotenv "environ option"

fun config_step ::
  "(pystr \<Rightarrow> int option) \<Rightarrow> (pystr \<Rightarrow> real option) \<Rightarrow> world \<Rightarrow> config_op \<Rightarrow> world" where
  "config_step pint pfloat w GetInstance = snd (get_instance pint pfloat w)"
| "config_step pint pfloat w RefreshStockList =
     (case config_instance w of
        None \<Rightarrow> w
      | Some self \<Rightarrow> w\<lparr>config_instance := Some (refresh_stock_list w self)\<rparr>)"
| "config_step pint pfloat w ResetInstance = reset_instance w"
| "config_step pint pfloat w (SetEnviron env) = w\<lparr>os_environ := env\<rparr>"
| "config_step pint pfloat w (SetDotenv file) = w\<lparr>dotenv_file := file\<rparr>"

fun config_run ::
  "(pystr \<Rightarrow> int option) \<Rightarrow> (pystr \<Rightarrow> real option) \<Rightarrow> world \<Rightarrow> config_op list \<Rightarrow> world" where
  "config_run pint pfloat w [] = w"
| "config_run pint pfloat w (op # ops) = config_run pint pfloat (config_step pint pfloat w op) ops"

text \<open>
  Sample values for the closed examples below: \<open>int\<close> and \<open>float\<close> on the literals
  that \<open>config.py\<close> passes as defaults (the only strings the examples convert), and three
  states of the environment.
\<close>

definition int_of_defaults :: "pystr \<Rightarrow> int option" where
  "int_of_defaults s =
     (if s = py ''5'' then Some 5 else if s = py ''60'' then Some 60
      else if s = py ''20000'' then Some 20000 else if s = py ''4000'' then Some 4000
      else if s = py ''3'' then Some 3 else None)"

definition float_of_defaults :: "pystr \<Rightarrow> real option" where
  "float_of_defaults s =
     (if s = py ''2.0'' then Some 2 else if s = py ''5.0'' then Some 5 else None)"

definition world_listed :: world where
  "world_listed = \<lparr>os_environ = [py ''STOCK_LIST'' \<mapsto> py '' 600519, ,000858 ''],
                   dotenv_file = None, config_instance = None\<rparr>"

definition world_blank :: world where
  "world_blank = \<lparr>os_environ = Map.empty,
                  dotenv_file = Some [py ''STOCK_LIST'' \<mapsto> py '' , ''],
                  config_instance = None\<rparr>"

definition environ_changed :: environ where
  "environ_changed = [py ''STOCK_LIST'' \<mapsto> py ''300750'', py ''LOG_LEVEL'' \<mapsto> py ''DEBUG'']"

section \<open>feishu\_url\_helper.py\<close>

text \<open>
  A literal of a pattern, matched at the start of the input: the rest of the input after
  the literal, or \<open>None\<close> when the input does not start with it.
\<close>

fun strip_prefix :: "pystr \<Rightarrow> pystr \<Rightarrow> pystr option" where
  "strip_prefix [] s = Some s"
| "strip_prefix (p # ps) [] = None"
| "strip_prefix (p # ps) (x # xs) = (if p = x then strip_prefix ps xs else None)"

text \<open>
  \<open>re.search(pattern, s)\<close>: the match at the leftmost position of \<open>s\<close> (the end of the
  string included) where the pattern matches; \<open>m\<close> is the pattern matched at the start
  of its argument.
\<close>

fun re_search :: "(pystr \<Rightarrow> 'a option) \<Rightarrow> pystr \<Rightarrow> 'a option" where
  "re_search m [] = m []"
| "re_search m (c # cs) = (case m (c # cs) of Some r \<Rightarrow> Some r | None \<Rightarrow> re_search m cs)"

text \<open>
  The pattern \<^verbatim>\<open>/base/([^/]+)/~/([^/]+)\<close> matched at the start of \<open>s\<close>, with its two
  groups. A group \<^verbatim>\<open>[^/]+\<close> is greedy: it takes the longest run of characters other than
  \<open>/\<close> (a line feed is such a character). The matcher may give characters back, but a
  shorter first group is followed by a character that is not \<open>/\<close> where the pattern
  wants \<open>/\<close>, and the second group ends the pattern, so the longest runs are the only
  candidates.
\<close>

definition match_table :: "pystr \<Rightarrow> (pystr \<times> pystr) option" where
  "match_table s =
     (case strip_prefix (py ''/base/'') s of
        None \<Rightarrow> None
      | Some rest \<Rightarrow>
          (let app_token = takeWhile (\<lambda>c. c \<noteq> 47) rest;
               after = dropWhile (\<lambda>c. c \<noteq> 47) rest
           in if app_token = [] then None
              else (case strip_prefix (py ''/~/'') after of
                      None \<Rightarrow> None
                    | Some rest2 \<Rightarrow>
                        (let table_id = takeWhile (\<lambda>c. c \<noteq> 47) rest2
                         in if table_id = [] then None else Some (app_token, table_id)))))"

text \<open>
  The pattern \<^verbatim>\<open>/base/([^/]+)/?$\<close> matched at the start of \<open>s\<close>, with its group.
  Without the MULTILINE flag \<^verbatim>\<open>$\<close> matches at the end of the string and before a line
  feed that is the last character. After the longest run of characters other than \<open>/\<close>
  the input ends, or continues with \<open>/\<close>: then \<^verbatim>\<open>/?\<close> takes the \<open>/\<close> and \<^verbatim>\<open>$\<close>
  needs the end or a final line feed. A shorter group would have to be followed by
  a final line feed and nothing else, which is the case where the longest run has
  matched already.
\<close>

definition match_app :: "pystr \<Rightarrow> pystr option" where
  "match_app s =
     (case strip_prefix (py ''/base/'') s of
        None \<Rightarrow> None
      | Some rest \<Rightarrow>
          (let app_token = takeWhile (\<lambda>c. c \<noteq> 47) rest;
               after = dropWhile (\<lambda>c. c \<noteq> 47) rest
           in if app_token \<noteq> [] \<and> (after = [] \<or> after = [47] \<or> after = [47, 10])
              then Some app_token else None))"

text \<open>
  \<open>parse_feishu_bitable_url\<close>. The result is the tuple
  \<open>(app_token, table_id, full_token)\<close>, with \<open>None\<close> as the table id in the second
  form, or \<open>None\<close>.
\<close>

definition parse_feishu_bitable_url :: "pystr \<Rightarrow> (pystr \<times> pystr option \<times> pystr) option" where
  "parse_feishu_bitable_url url =
     (let url1 = (if 63 \<in> set url then hd (py_split 63 url) else url);
          url2 = py_rstrip 47 url1
      in case re_search match_table url2 of
           Some (app_token, table_id) \<Rightarrow>
             Some (app_token, Some table_id, app_token @ py ''/'' @ table_id)
         | None \<Rightarrow>
             (case re_search match_app url2 of
                Some app_token \<Rightarrow> Some (app_token, None, app_token)
              | None \<Rightarrow> None))"

section \<open>Properties of the string primitives\<close>

lemma py_eq_iff: "py a = py b \<longleftrightarrow> a = b"
proof -
  have "inj (of_char :: char \<Rightarrow> nat)"
    by (rule inj_of_char)
  then show ?thesis
    unfolding py_def by (rule inj_map_eq_map)
qed

lemma py_split_nonempty: "py_split c s \<noteq> []"
  by (induction s) (auto split: list.splits)

lemma strip_edge:
  assumes "t = [] \<or> \<not> P (hd t)"
  shows "dropWhile P (rev (dropWhile P (rev t))) = rev (dropWhile P (rev t))"
proof (cases "rev (dropWhile P (rev t))")
  case Nil
  show ?thesis unfolding Nil by simp
next
  case (Cons a r)
  have "\<exists>zs. t = rev (dropWhile P (rev t)) @ zs"
    by (metis rev_append rev_rev_ident takeWhile_dropWhile_id)
  then obtain zs where "t = (a # r) @ zs" using Cons by metis
  then have "hd t = a" and "t \<noteq> []" by auto
  with assms have "\<not> P a" by auto
  with Cons show ?thesis by simp
qed

lemma py_strip_idem: "py_strip (py_strip s) = py_strip s"
proof -
  let ?t = "dropWhile py_isspace s"
  have "?t = [] \<or> \<not> py_isspace (hd ?t)"
    by (metis hd_dropWhile)
  then have "dropWhile py_isspace (rev (dropWhile py_isspace (rev ?t))) =
      rev (dropWhile py_isspace (rev ?t))"
    by (rule strip_edge)
  then show ?thesis
    by (simp add: py_strip_def)
qed

lemma comma_list_entries: "\<forall>e\<in>set (comma_list s). e \<noteq> [] \<and> py_strip e = e"
  by (auto simp: comma_list_def py_strip_idem)

lemma py_strip_default_codes:
  "py_strip (py ''600519'') = py ''600519''"
  "py_strip (py ''000001'') = py ''000001''"
  "py_strip (py ''300750'') = py ''300750''"
  by (simp_all add: py_strip_def py_def py_isspace_def)

lemma default_codes_nonempty:
  "py ''600519'' \<noteq> []" "py ''000001'' \<noteq> []" "py ''300750'' \<noteq> []"
  by (simp_all add: py_def)

section \<open>The watchlist of the configuration\<close>

lemma load_from_env_stock_list:
  assumes "load_from_env pint pfloat w = (Inr c, w')"
  shows "stock_list c =
     (let parsed = comma_list (getenv (load_dotenv (dotenv_file w) (os_environ w)) (py ''STOCK_LIST'') [])
      in if parsed = [] then [py ''600519'', py ''000001'', py ''300750''] else parsed)"
  using assms unfolding load_from_env_def Let_def
  by (auto split: option.splits)

lemma load_from_env_constants:
  assumes "load_from_env pint pfloat w = (Inr c, w')"
  shows "tushare_rate_limit_per_minute c = 80 \<and> max_retries c = 3 \<and>
         retry_base_delay c = 1 \<and> retry_max_delay c = 30"
  using assms unfolding load_from_env_def Let_def
  by (auto split: option.splits)

lemma world_listed_loads:
  "\<exists>c w'. load_from_env int_of_defaults float_of_defaults world_listed = (Inr c, w')"
  by (simp add: load_from_env_def world_listed_def load_dotenv_def getenv_def Let_def
       int_of_defaults_def float_of_defaults_def py_def)

lemma world_listed_stock_list_str:
  "getenv (load_dotenv (dotenv_file world_listed) (os_environ world_listed)) (py ''STOCK_LIST'') [] =
     py '' 600519, ,000858 ''"
  by (simp add: world_listed_def load_dotenv_def getenv_def)

lemma comma_list_listed: "comma_list (py '' 600519, ,000858 '') = [py ''600519'', py ''000858'']"
  by (simp add: comma_list_def py_def py_strip_def py_isspace_def)

lemma comma_list_blank:
  "py_strip (py '' , '') = py '',''" "py '','' \<noteq> []" "comma_list (py '','') = []"
  by (simp_all add: comma_list_def py_def py_strip_def py_isspace_def)

text \<open>
  Claim C9. \<open>stock_list\<close> is non-empty after each of the two operations that set it.
  When \<open>_load_from_env\<close> returns a configuration, its \<open>stock_list\<close> is the
  comma-separated, stripped, empty-entry-free parse of \<open>STOCK_LIST\<close> (read after
  \<open>load_dotenv\<close>) if that parse is non-empty and the three default codes otherwise;
  \<open>refresh_stock_list\<close> stores the parse of the value it reads, or \<open>['000001']\<close> when
  that parse is empty. In both cases the list is non-empty and every entry is a non-empty
  string that \<open>strip\<close> leaves unchanged.
\<close>

theorem C9_stock_list_nonempty:
  "(load_from_env pint pfloat w = (Inr c, w') \<longrightarrow>
      stock_list c =
        (let parsed = comma_list (getenv (load_dotenv (dotenv_file w) (os_environ w)) (py ''STOCK_LIST'') [])
         in if parsed = [] then [py ''600519'', py ''000001'', py ''300750''] else parsed) \<and>
      stock_list c \<noteq> [] \<and>
      (\<forall>e\<in>set (stock_list c). e \<noteq> [] \<and> py_strip e = e)) \<and>
   (stock_list (refresh_stock_list w2 self) =
      (let from_file = (case dotenv_file w2 of
                          None \<Rightarrow> []
                        | Some vals \<Rightarrow>
                            py_strip (case vals (py ''STOCK_LIST'') of None \<Rightarrow> [] | Some v \<Rightarrow> v));
           parsed = comma_list
             (if from_file = [] then getenv (os_environ w2) (py ''STOCK_LIST'') [] else from_file)
       in if parsed = [] then [py ''000001''] else parsed) \<and>
    stock_list (refresh_stock_list w2 self) \<noteq> [] \<and>
    (\<forall>e\<in>set (stock_list (refresh_stock_list w2 self)). e \<noteq> [] \<and> py_strip e = e))"
proof (intro conjI impI)
  assume L: "load_from_env pint pfloat w = (Inr c, w')"
  let ?parsed = "comma_list (getenv (load_dotenv (dotenv_file w) (os_environ w)) (py ''STOCK_LIST'') [])"
  from load_from_env_stock_list[OF L]
  show eq: "stock_list c =
        (let parsed = ?parsed
         in if parsed = [] then [py ''600519'', py ''000001'', py ''300750''] else parsed)" .
  then show "stock_list c \<noteq> []" by (simp add: Let_def)
  show "\<forall>e\<in>set (stock_list c). e \<noteq> [] \<and> py_strip e = e"
  proof (cases "?parsed = []")
    case True
    with eq have "stock_list c = [py ''600519'', py ''000001'', py ''300750'']" by (simp add: Let_def)
    then show ?thesis by (simp add: py_strip_default_codes default_codes_nonempty)
  next
    case False
    with eq have "stock_list c = ?parsed" by (simp add: Let_def)
    then show ?thesis using comma_list_entries by simp
  qed
next
  let ?from_file = "(case dotenv_file w2 of
                          None \<Rightarrow> []
                        | Some vals \<Rightarrow>
                            py_strip (case vals (py ''STOCK_LIST'') of None \<Rightarrow> [] | Some v \<Rightarrow> v))"
  let ?parsed = "comma_list
             (if ?from_file = [] then getenv (os_environ w2) (py ''STOCK_LIST'') [] else ?from_file)"
  have eq: "stock_list (refresh_stock_list w2 self) = (if ?parsed = [] then [py ''000001''] else ?parsed)"
    by (simp add: refresh_stock_list_def Let_def)
  then show "stock_list (refresh_stock_list w2 self) =
      (let from_file = ?from_file;
           parsed = comma_list
             (if from_file = [] then getenv (os_environ w2) (py ''STOCK_LIST'') [] else from_file)
       in if parsed = [] then [py ''000001''] else parsed)"
    by (simp add: Let_def)
  from eq show "stock_list (refresh_stock_list w2 self) \<noteq> []" by simp
  show "\<forall>e\<in>set (stock_list (refresh_stock_list w2 self)). e \<noteq> [] \<and> py_strip e = e"
  proof (cases "?parsed = []")
    case True
    with eq have "stock_list (refresh_stock_list w2 self) = [py ''000001'']" by simp
    then show ?thesis by (simp add: py_strip_default_codes default_codes_nonempty)
  next
    case False
    with eq have "stock_list (refresh_stock_list w2 self) = ?parsed" by simp
    then show ?thesis using comma_list_entries by simp
  qed
qed

theorem C9_stock_list_nonempty_witness:
  "map_sum id stock_list (fst (load_from_env int_of_defaults float_of_defaults world_listed)) =
     Inr [py ''600519'', py ''000858''] \<and>
   stock_list (refresh_stock_list world_blank default_config) = [py ''000001'']"
proof -
  obtain c w' where L: "load_from_env int_of_defaults float_of_defaults world_listed = (Inr c, w')"
    using world_listed_loads by blast
  note inst = C9_stock_list_nonempty[of int_of_defaults float_of_defaults world_listed c w'
      world_blank default_config]
  from inst[THEN conjunct1, rule_format, OF L, THEN conjunct1]
  have "stock_list c = [py ''600519'', py ''000858'']"
    by (simp add: world_listed_stock_list_str comma_list_listed Let_def)
  moreover from inst[THEN conjunct2, THEN conjunct1]
  have "stock_list (refresh_stock_list world_blank default_config) = [py ''000001'']"
    by (simp add: Let_def world_blank_def comma_list_blank)
  ultimately show ?thesis using L by simp
qed

section \<open>The configuration singleton\<close>

lemma config_step_keeps:
  assumes "config_instance w = Some c" and "op \<noteq> ResetInstance"
  shows "\<exists>c'. config_instance (config_step pint pfloat w op) = Some c' \<and>
           c'\<lparr>stock_list := stock_list c\<rparr> = c \<and> (op \<noteq> RefreshStockList \<longrightarrow> c' = c)"
  using assms by (cases op) (auto simp: get_instance_def refresh_stock_list_def Let_def)

lemma config_run_keeps:
  assumes "config_instance w = Some c" and "ResetInstance \<notin> set ops"
  shows "\<exists>c'. config_instance (config_run pint pfloat w ops) = Some c' \<and>
           c'\<lparr>stock_list := stock_list c\<rparr> = c \<and> (RefreshStockList \<notin> set ops \<longrightarrow> c' = c)"
  using assms
proof (induction ops arbitrary: w c)
  case Nil
  then show ?case by simp
next
  case (Cons op ops)
  from Cons.prems have ne: "op \<noteq> ResetInstance" and rest: "ResetInstance \<notin> set ops" by auto
  from config_step_keeps[OF Cons.prems(1) ne, of pint pfloat]
  obtain c1 where c1: "config_instance (config_step pint pfloat w op) = Some c1"
    and eq1: "c1\<lparr>stock_list := stock_list c\<rparr> = c" and same1: "op \<noteq> RefreshStockList \<longrightarrow> c1 = c"
    by blast
  from Cons.IH[OF c1 rest]
  obtain c2 where c2: "config_instance (config_run pint pfloat (config_step pint pfloat w op) ops) = Some c2"
    and eq2: "c2\<lparr>stock_list := stock_list c1\<rparr> = c1" and same2: "RefreshStockList \<notin> set ops \<longrightarrow> c2 = c1"
    by blast
  have "c2\<lparr>stock_list := stock_list c\<rparr> = c"
  proof -
    have "c2\<lparr>stock_list := stock_list c\<rparr> =
        (c2\<lparr>stock_list := stock_list c1\<rparr>)\<lparr>stock_list := stock_list c\<rparr>"
      by simp
    also have "\<dots> = c" using eq2 eq1 by simp
    finally show ?thesis .
  qed
  with c2 same1 same2 show ?case by auto
qed

lemma get_instance_first:
  assumes "config_instance w = None" and "get_instance pint pfloat w = (Inr c, w')"
  shows "fst (load_from_env pint pfloat w) = Inr c \<and> config_instance w' = Some c"
  using assms by (auto simp: get_instance_def split: prod.splits sum.splits)

lemma get_instance_later:
  assumes "config_instance w = Some c"
  shows "get_instance pint pfloat w = (Inr c, w)"
  using assms by (simp add: get_instance_def)

lemma world_listed_first_call:
  assumes "load_from_env int_of_defaults float_of_defaults world_listed = (Inr c, w')"
  shows "get_instance int_of_defaults float_of_defaults world_listed =
           (Inr c, w'\<lparr>config_instance := Some c\<rparr>)"
  using assms by (simp add: get_instance_def world_listed_def)

text \<open>
  Claim C5, as stated, fails: without any reset, \<open>refresh_stock_list\<close> re-reads
  \<open>STOCK_LIST\<close> and the watchlist of the singleton follows the changed environment.
\<close>

theorem C5_config_read_once_counterexample:
  "map_option stock_list (config_instance
      (config_run int_of_defaults float_of_defaults world_listed [GetInstance])) =
     Some [py ''600519'', py ''000858''] \<and>
   map_option stock_list (config_instance
      (config_run int_of_defaults float_of_defaults world_listed
         [GetInstance, SetEnviron environ_changed, RefreshStockList])) =
     Some [py ''300750'']"
proof -
  obtain c w' where L: "load_from_env int_of_defaults float_of_defaults world_listed = (Inr c, w')"
    using world_listed_loads by blast
  have sl: "stock_list c = [py ''600519'', py ''000858'']"
    using load_from_env_stock_list[OF L]
    by (simp add: world_listed_stock_list_str comma_list_listed Let_def)
  have w': "dotenv_file w' = None"
    using L by (auto simp: load_from_env_def Let_def world_listed_def split: option.splits)
  let ?w1 = "w'\<lparr>config_instance := Some c\<rparr>"
  let ?w2 = "?w1\<lparr>os_environ := environ_changed\<rparr>"
  have g: "get_instance int_of_defaults float_of_defaults world_listed = (Inr c, ?w1)"
    by (rule world_listed_first_call[OF L])
  have cl: "comma_list (py ''300750'') = [py ''300750'']"
    by (simp add: comma_list_def py_def py_strip_def py_isspace_def)
  have ne: "py ''300750'' \<noteq> []"
    by (simp add: py_def)
  have r: "stock_list (refresh_stock_list ?w2 c) = [py ''300750'']"
    by (simp add: refresh_stock_list_def Let_def w' getenv_def environ_changed_def cl ne py_eq_iff)
  have run1: "config_run int_of_defaults float_of_defaults world_listed [GetInstance] = ?w1"
    by (simp add: g)
  have run3: "config_run int_of_defaults float_of_defaults world_listed
      [GetInstance, SetEnviron environ_changed, RefreshStockList] =
      ?w2\<lparr>config_instance := Some (refresh_stock_list ?w2 c)\<rparr>"
    by (simp add: g)
  show ?thesis
    unfolding run3 run1 using sl r by simp
qed

text \<open>
  Claim C5, amended. The first call to \<open>get_instance\<close> builds the singleton with
  \<open>_load_from_env\<close> and stores it; every later call returns the stored instance and
  leaves the whole state as it is, whatever the environment holds by then. Over any
  sequence of calls and environment changes without \<open>reset_instance\<close>, the singleton
  stays in place and every field other than \<open>stock_list\<close> keeps its value;
  \<open>stock_list\<close> itself changes only through \<open>refresh_stock_list\<close>.
\<close>

theorem C5_config_singleton:
  "(config_instance w0 = None \<and> get_instance pint pfloat w0 = (Inr c0, w1) \<longrightarrow>
      fst (load_from_env pint pfloat w0) = Inr c0 \<and> config_instance w1 = Some c0) \<and>
   (config_instance w = Some c \<longrightarrow> get_instance pint pfloat w = (Inr c, w)) \<and>
   (config_instance w = Some c \<and> ResetInstance \<notin> set ops \<longrightarrow>
      (\<exists>c'. config_instance (config_run pint pfloat w ops) = Some c' \<and>
            c'\<lparr>stock_list := stock_list c\<rparr> = c \<and>
            (RefreshStockList \<notin> set ops \<longrightarrow> c' = c)))"
  using get_instance_first[of w0 pint pfloat c0 w1] get_instance_later[of w c pint pfloat]
    config_run_keeps[of w c ops pint pfloat]
  by blast

theorem C5_config_singleton_witness:
  "config_instance (config_run int_of_defaults float_of_defaults world_listed
      [GetInstance, SetEnviron environ_changed, GetInstance]) =
     config_instance (config_run int_of_defaults float_of_defaults world_listed [GetInstance]) \<and>
   config_instance (config_run int_of_defaults float_of_defaults world_listed [GetInstance]) \<noteq> None \<and>
   fst (get_instance int_of_defaults float_of_defaults
          (config_run int_of_defaults float_of_defaults world_listed [GetInstance])) =
     fst (get_instance int_of_defaults float_of_defaults world_listed)"
proof -
  obtain c w' where L: "load_from_env int_of_defaults float_of_defaults world_listed = (Inr c, w')"
    using world_listed_loads by blast
  let ?w1 = "w'\<lparr>config_instance := Some c\<rparr>"
  have g: "get_instance int_of_defaults float_of_defaults world_listed = (Inr c, ?w1)"
    by (rule world_listed_first_call[OF L])
  have none: "config_instance world_listed = None"
    by (simp add: world_listed_def)
  have ops: "ResetInstance \<notin> set [SetEnviron environ_changed, GetInstance]"
    and no_refresh: "RefreshStockList \<notin> set [SetEnviron environ_changed, GetInstance]"
    by simp_all
  note inst = C5_config_singleton[of world_listed int_of_defaults float_of_defaults c ?w1 ?w1 c
      "[SetEnviron environ_changed, GetInstance]"]
  from inst[THEN conjunct1] none g
  have stored: "config_instance ?w1 = Some c" by blast
  from inst[THEN conjunct2, THEN conjunct1] stored
  have later: "get_instance int_of_defaults float_of_defaults ?w1 = (Inr c, ?w1)" by blast
  from inst[THEN conjunct2, THEN conjunct2] stored ops no_refresh
  have kept: "config_instance (config_run int_of_defaults float_of_defaults ?w1
      [SetEnviron environ_changed, GetInstance]) = Some c" by blast
  have run1: "config_run int_of_defaults float_of_defaults world_listed [GetInstance] = ?w1"
    by (simp add: g)
  have run3: "config_run int_of_defaults float_of_defaults world_listed
      [GetInstance, SetEnviron environ_changed, GetInstance] =
      config_run int_of_defaults float_of_defaults ?w1 [SetEnviron environ_changed, GetInstance]"
    by (simp add: g)
  show ?thesis
    unfolding run3 run1 using kept later g by simp
qed

end
